theory Spec2Isabelle
  imports Main "HOL-Library.Sublist"
begin

section \<open>JavaScript values\<close>

text \<open>
  The objects that cross the trust boundaries of the program (decoded token payloads,
  provider responses, the stored session record) are typed \<open>any\<close> in the source, so a
  property may hold a string, a number, \<open>null\<close>, or be missing. A missing property and a
  property holding \<open>undefined\<close> read the same, and both are \<open>JUndefined\<close> here.
  Numbers are integers; the floating-point values (fractions, \<open>NaN\<close>, infinities) are
  outside the model.
\<close>

datatype jsval = JUndefined | JNull | JBool bool | JNum int | JStr string

text \<open>Truthiness, as \<open>if (v)\<close>, \<open>!v\<close> and \<open>a || b\<close> test it.\<close>

fun truthy :: "jsval \<Rightarrow> bool" where
  "truthy JUndefined = False"
| "truthy JNull = False"
| "truthy (JBool b) = b"
| "truthy (JNum n) = (n \<noteq> 0)"
| "truthy (JStr s) = (s \<noteq> [])"

definition js_or :: "jsval \<Rightarrow> jsval \<Rightarrow> jsval" where
  "js_or a b = (if truthy a then a else b)"

text \<open>A header value or an environment variable: a string, or missing.\<close>

definition present :: "string option \<Rightarrow> bool" where
  "present h = (case h of None \<Rightarrow> False | Some s \<Rightarrow> s \<noteq> [])"

text \<open>Decimal notation, as a template string interpolates a number.\<close>

definition digit_char :: "nat \<Rightarrow> char" where
  "digit_char d = ''0123456789'' ! d"

function string_of_nat :: "nat \<Rightarrow> string" where
  "string_of_nat n =
     (if n < 10 then [digit_char n]
      else string_of_nat (n div 10) @ [digit_char (n mod 10)])"
  by pat_completeness auto
termination
  by (relation "measure (\<lambda>n. n)") auto

declare string_of_nat.simps [simp del]

definition string_of_int :: "int \<Rightarrow> string" where
  "string_of_int i =
     (if i < 0 then CHR ''-'' # string_of_nat (nat (- i)) else string_of_nat (nat i))"

text \<open>
  A template string prints a safe integer (magnitude at most \<open>2^53 - 1\<close>) with all its
  digits. Beyond that range a number holds a rounded value and is printed by the
  language with rounded digits, and in exponent form from \<open>10^21\<close> up: that text is not
  computed here, it is the parameter \<open>unsafe_toString\<close>. The concrete instances further
  down hold safe integers only, so their value for the parameter is never consulted.
\<close>

definition safe_integer :: "int \<Rightarrow> bool" where
  "safe_integer n = (- 9007199254740991 \<le> n \<and> n \<le> 9007199254740991)"

fun to_string :: "(int \<Rightarrow> string) \<Rightarrow> jsval \<Rightarrow> string" where
  "to_string unsafe_toString JUndefined = ''undefined''"
| "to_string unsafe_toString JNull = ''null''"
| "to_string unsafe_toString (JBool b) = (if b then ''true'' else ''false'')"
| "to_string unsafe_toString (JNum n) =
     (if safe_integer n then string_of_int n else unsafe_toString n)"
| "to_string unsafe_toString (JStr s) = s"

section \<open>The world outside the program\<close>

text \<open>
  The claims of a signed identity token, as \<open>jwt.decode\<close> (server) and \<open>jwtDecode\<close>
  (client) return them. The decoders themselves are library code and are parameters of
  the functions below. The \<open>exp\<close> claim is a number when it is there.
\<close>

record jwt_payload =
  claim_sub :: jsval
  claim_email :: jsval
  claim_name :: jsval
  claim_picture :: jsval
  claim_exp :: "int option"

text \<open>The profile that \<open>GET https://api.github.com/user\<close> answers with.\<close>

record github_user =
  gh_id :: jsval
  gh_login :: jsval
  gh_email :: jsval
  gh_name :: jsval
  gh_avatar_url :: jsval

text \<open>
  What an \<open>axios\<close> call throws: either no response arrived (a transport error, with the
  message of the failure), or the response had a status outside 2xx (the provider
  rejected the call); the second carries the \<open>error_description\<close> of the response data.
\<close>

datatype axios_error = TransportError string | ResponseError nat jsval

fun error_message :: "axios_error \<Rightarrow> string" where
  "error_message (TransportError m) = m"
| "error_message (ResponseError st d) = ''Request failed with status code '' @ string_of_nat st"

fun error_description :: "axios_error \<Rightarrow> jsval" where
  "error_description (TransportError m) = JUndefined"
| "error_description (ResponseError st d) = d"

section \<open>server.js: the authentication middleware\<close>

record user_info =
  info_email :: jsval
  info_name :: jsval
  info_sub :: jsval

text \<open>
  \<open>verifyGoogleToken\<close> and \<open>verifyGitHubToken\<close> either return the user's data or throw an
  \<open>Error\<close>; \<open>Inl\<close> carries its message. \<open>jwt.decode\<close> answers \<open>null\<close> (here \<open>None\<close>) for a
  token it cannot decode.
\<close>

definition verifyGoogleToken :: "(string \<Rightarrow> jwt_payload option) \<Rightarrow> string \<Rightarrow> string + user_info" where
  "verifyGoogleToken jwt_decode token =
     (case jwt_decode token of
        None \<Rightarrow> Inl (''Google token verification failed: '' @ ''Invalid Google token structure'')
      | Some decoded \<Rightarrow>
          if \<not> truthy (claim_email decoded)
          then Inl (''Google token verification failed: '' @ ''Invalid Google token structure'')
          else Inr \<lparr>info_email = claim_email decoded,
                    info_name = claim_name decoded,
                    info_sub = claim_sub decoded\<rparr>)"

definition verifyGitHubToken :: "(string \<Rightarrow> axios_error + github_user) \<Rightarrow> string \<Rightarrow> string + user_info" where
  "verifyGitHubToken axios_get_user token =
     (case axios_get_user token of
        Inl err \<Rightarrow> Inl (''GitHub token verification failed: '' @ error_message err)
      | Inr data \<Rightarrow>
          Inr \<lparr>info_email = gh_email data,
               info_name = js_or (gh_name data) (gh_login data),
               info_sub = gh_id data\<rparr>)"

text \<open>\<open>req.user\<close>: a property the object literal does not set is \<open>JUndefined\<close>.\<close>

record principal =
  p_email :: jsval
  p_name :: jsval
  p_id :: jsval
  p_provider :: string
  p_token :: string

text \<open>
  The middleware either answers itself, \<open>res.status(s).json({error, message})\<close> (the
  \<open>hint\<close> text of the last answer is left out), or sets \<open>req.user\<close> and calls \<open>next()\<close>.
\<close>

datatype auth_outcome = Reply nat string string | Next principal

text \<open>The verification a request caused, with the token it was run on.\<close>

datatype verification = JwtDecode string | GitHubUserCall string

type_synonym headers = "string \<rightharpoonup> string"

text \<open>
  \<open>authenticate\<close>: the request's headers (Node gives their names in lower case), the
  configured \<open>process.env.API_KEY\<close>, and the two verifiers' outside worlds. The result
  lists the verifications that ran. An error thrown by a verifier is caught by the
  function's one \<open>catch\<close>, which answers 401 with the error's message.
\<close>

definition authenticate ::
  "string option \<Rightarrow> (string \<Rightarrow> jwt_payload option) \<Rightarrow> (string \<Rightarrow> axios_error + github_user)
     \<Rightarrow> headers \<Rightarrow> verification list \<times> auth_outcome" where
  "authenticate API_KEY jwt_decode axios_get_user hdrs =
     (let authHeader = hdrs ''authorization'';
          apiKey = hdrs ''x-api-key'';
          userProvider = hdrs ''x-user-provider''
      in
      if present authHeader \<and> prefix ''Bearer '' (the authHeader) then
        (let token = drop 7 (the authHeader) in
         if \<not> present userProvider then
           ([], Reply 400 ''Bad Request'' ''Missing x-user-provider header'')
         else if userProvider = Some ''google'' then
           (case verifyGoogleToken jwt_decode token of
              Inl msg \<Rightarrow> ([JwtDecode token], Reply 401 ''Unauthorized'' msg)
            | Inr userInfo \<Rightarrow>
                ([JwtDecode token],
                 Next \<lparr>p_email = info_email userInfo, p_name = info_name userInfo,
                       p_id = info_sub userInfo, p_provider = the userProvider,
                       p_token = token\<rparr>))
         else if userProvider = Some ''github'' then
           (case verifyGitHubToken axios_get_user token of
              Inl msg \<Rightarrow> ([GitHubUserCall token], Reply 401 ''Unauthorized'' msg)
            | Inr userInfo \<Rightarrow>
                ([GitHubUserCall token],
                 Next \<lparr>p_email = info_email userInfo, p_name = info_name userInfo,
                       p_id = info_sub userInfo, p_provider = the userProvider,
                       p_token = token\<rparr>))
         else ([], Reply 400 ''Bad Request'' ''Unknown provider''))
      else if present apiKey then
        (if apiKey \<noteq> API_KEY then ([], Reply 403 ''Forbidden'' ''Invalid API Key'')
         else ([], Next \<lparr>p_email = JStr ''api-client'', p_name = JUndefined,
                         p_id = JUndefined, p_provider = ''api-key'',
                         p_token = the apiKey\<rparr>))
      else
        ([], Reply 401 ''Unauthorized''
               ''Missing authentication credentials (OAuth token or API Key)''))"

subsection \<open>\<open>POST /api/records\<close>\<close>

text \<open>
  The handler runs after the middleware, on the \<open>req.user\<close> it set. The payload parts
  (\<open>location\<close>, \<open>demographics\<close>, \<open>clientIp\<close>, \<open>metadata\<close>) are opaque here: \<open>None\<close> is a part
  that is missing or falsy. \<open>save\<close> is Mongoose's \<open>record.save()\<close>: the identifier of the
  saved record, or the message of the error it threw.
\<close>

record authenticated_by =
  ab_provider :: string
  ab_email :: jsval
  ab_userId :: jsval
  ab_name :: jsval

record 'a location_record =
  rec_clientIp :: "'a option"
  rec_location :: "'a option"
  rec_demographics :: "'a option"
  rec_metadata :: "'a option"
  authenticatedBy :: authenticated_by

record 'a records_body =
  body_location :: "'a option"
  body_demographics :: "'a option"
  body_clientIp :: "'a option"
  body_metadata :: "'a option"

datatype 'a records_outcome =
    RecordsReply nat string string
  | Created "'a location_record" string

definition new_record :: "principal \<Rightarrow> 'a records_body \<Rightarrow> 'a location_record" where
  "new_record user b =
     \<lparr>rec_clientIp = body_clientIp b,
      rec_location = body_location b,
      rec_demographics = body_demographics b,
      rec_metadata = body_metadata b,
      authenticatedBy =
        \<lparr>ab_provider = p_provider user, ab_email = p_email user,
         ab_userId = p_id user, ab_name = p_name user\<rparr>\<rparr>"

definition post_records ::
  "('a location_record \<Rightarrow> string + string) \<Rightarrow> principal \<Rightarrow> 'a records_body \<Rightarrow> 'a records_outcome" where
  "post_records save user b =
     (if body_location b = None \<or> body_demographics b = None then
        RecordsReply 400 ''Bad Request'' ''Missing required fields: location, demographics''
      else
        (let record = new_record user b in
         case save record of
           Inl msg \<Rightarrow> RecordsReply 500 ''Internal Server Error'' msg
         | Inr recordId \<Rightarrow> Created record recordId))"

text \<open>The route \<open>app.post('/api/records', authenticate, handler)\<close>.\<close>

definition post_records_route ::
  "string option \<Rightarrow> (string \<Rightarrow> jwt_payload option) \<Rightarrow> (string \<Rightarrow> axios_error + github_user)
     \<Rightarrow> ('a location_record \<Rightarrow> string + string) \<Rightarrow> headers \<Rightarrow> 'a records_body \<Rightarrow> 'a records_outcome" where
  "post_records_route API_KEY jwt_decode axios_get_user save hdrs b =
     (case snd (authenticate API_KEY jwt_decode axios_get_user hdrs) of
        Reply st e m \<Rightarrow> RecordsReply st e m
      | Next user \<Rightarrow> post_records save user b)"


subsection \<open>\<open>POST /api/auth/github/callback\<close>\<close>

text \<open>
  The JSON body of the endpoint's answers, with every property one of them sets and the
  one more the client reads (\<open>token_expiry\<close>, a number when it is there). A property an
  answer does not set is \<open>JUndefined\<close> (\<open>None\<close>).
\<close>

record callback_body =
  cb_success :: jsval
  cb_error :: jsval
  cb_message :: jsval
  cb_details :: jsval
  cb_access_token :: jsval
  cb_github_id :: jsval
  cb_login :: jsval
  cb_email :: jsval
  cb_avatar_url :: jsval
  cb_name :: jsval
  cb_token_expiry :: "int option"

definition empty_body :: callback_body where
  "empty_body =
     \<lparr>cb_success = JUndefined, cb_error = JUndefined, cb_message = JUndefined,
      cb_details = JUndefined, cb_access_token = JUndefined, cb_github_id = JUndefined,
      cb_login = JUndefined, cb_email = JUndefined, cb_avatar_url = JUndefined,
      cb_name = JUndefined, cb_token_expiry = None\<rparr>"

definition error_body :: "string \<Rightarrow> string \<Rightarrow> jsval \<Rightarrow> callback_body" where
  "error_body e m d = empty_body\<lparr>cb_error := JStr e, cb_message := JStr m, cb_details := d\<rparr>"

text \<open>The data of GitHub's answer to the code-for-token exchange.\<close>

record token_data =
  td_error :: jsval
  td_error_description :: jsval
  td_access_token :: jsval

text \<open>
  The handler: the configured client identifier and secret, the two outbound calls
  (the exchange, and the profile fetch with \<open>Bearer <accessToken>\<close>), and \<open>req.body.code\<close>.
  It answers with a status and a body. Its outermost \<open>catch\<close> (status 500) is entered only
  when a request or a response has no data object at all, which is not modelled.
\<close>

definition github_callback ::
  "(int \<Rightarrow> string) \<Rightarrow> string option \<Rightarrow> string option
     \<Rightarrow> (string \<Rightarrow> string \<Rightarrow> jsval \<Rightarrow> axios_error + token_data)
     \<Rightarrow> (string \<Rightarrow> axios_error + github_user) \<Rightarrow> jsval \<Rightarrow> nat \<times> callback_body" where
  "github_callback unsafe_toString clientId clientSecret axios_post_token axios_get_user code =
     (if \<not> truthy code then
        (400, error_body ''Bad Request'' ''Missing authorization code'' JUndefined)
      else if \<not> present clientId \<or> \<not> present clientSecret then
        (500, error_body ''Internal Server Error'' ''GitHub OAuth not configured'' JUndefined)
      else
        (case axios_post_token (the clientId) (the clientSecret) code of
           Inl axiosError \<Rightarrow>
             (500, error_body ''Token Exchange Failed'' ''Failed to exchange code for access token''
                     (js_or (error_description axiosError) (JStr (error_message axiosError))))
         | Inr tokenData \<Rightarrow>
             if truthy (td_error tokenData) then
               (401, error_body ''Unauthorized'' ''OAuth exchange failed''
                       (td_error_description tokenData))
             else
               (let accessToken = td_access_token tokenData in
                if \<not> truthy accessToken then
                  (401, error_body ''Unauthorized'' ''No access token received from GitHub''
                          JUndefined)
                else
                  (case axios_get_user (to_string unsafe_toString accessToken) of
                     Inl axiosError \<Rightarrow>
                       (500, error_body ''User Info Fetch Failed''
                               ''Failed to fetch user info from GitHub''
                               (JStr (error_message axiosError)))
                   | Inr userData \<Rightarrow>
                       (200, empty_body
                          \<lparr>cb_success := JBool True,
                           cb_access_token := accessToken,
                           cb_github_id := gh_id userData,
                           cb_login := gh_login userData,
                           cb_email := gh_email userData,
                           cb_avatar_url := gh_avatar_url userData,
                           cb_name := gh_name userData\<rparr>)))))"

section \<open>authService.ts: identities and the session store\<close>

record User =
  u_id :: jsval
  u_email :: jsval
  u_name :: jsval
  u_picture :: jsval
  u_provider :: string
  u_token :: jsval
  u_tokenExpiry :: "int option"

subsection \<open>The session store\<close>

text \<open>
  \<open>localStorage\<close> maps keys to texts. The text of an item is represented by what
  \<open>JSON.parse\<close> makes of it, at the type the code reads it (\<open>User | null\<close>):
  \<open>Malformed s\<close> is a text \<open>s\<close> on which \<open>JSON.parse\<close> throws (the empty text is one),
  \<open>JsonNull\<close> the text \<open>null\<close>, \<open>JsonUser u\<close> a text that parses to the object \<open>u\<close>.
  \<open>JSON.stringify\<close> leaves out the properties that are \<open>undefined\<close>, which then read as
  \<open>undefined\<close> from the parsed object: in \<open>User\<close> both are \<open>JUndefined\<close> (\<open>None\<close>).
\<close>

datatype item = Malformed string | JsonNull | JsonUser User

type_synonym storage = "string \<rightharpoonup> item"

definition JSON_stringify :: "User \<Rightarrow> item" where
  "JSON_stringify user = JsonUser user"

text \<open>\<open>JSON.parse\<close>: \<open>None\<close> when it throws.\<close>

fun JSON_parse :: "item \<Rightarrow> User option option" where
  "JSON_parse (Malformed s) = None"
| "JSON_parse JsonNull = Some None"
| "JSON_parse (JsonUser u) = Some (Some u)"

text \<open>\<open>!stored\<close> on a text: only the empty text is falsy.\<close>

definition empty_text :: "item \<Rightarrow> bool" where
  "empty_text stored = (stored = Malformed [])"

text \<open>\<open>isTokenValid\<close>, with the value of \<open>Date.now()\<close>.\<close>

definition isTokenValid :: "int \<Rightarrow> User option \<Rightarrow> bool" where
  "isTokenValid now user =
     (case user of
        None \<Rightarrow> False
      | Some u \<Rightarrow>
          (case u_tokenExpiry u of
             None \<Rightarrow> True
           | Some tokenExpiry \<Rightarrow> if tokenExpiry = 0 then True else tokenExpiry > now))"

definition saveUserToStorage :: "User \<Rightarrow> storage \<Rightarrow> storage" where
  "saveUserToStorage user localStorage = localStorage(''user'' \<mapsto> JSON_stringify user)"

definition clearUserFromStorage :: "storage \<Rightarrow> storage" where
  "clearUserFromStorage localStorage = localStorage(''user'' := None)"

definition getUserFromStorage :: "int \<Rightarrow> storage \<Rightarrow> storage \<times> User option" where
  "getUserFromStorage now localStorage =
     (case localStorage ''user'' of
        None \<Rightarrow> (localStorage, None)
      | Some stored \<Rightarrow>
          if empty_text stored then (localStorage, None)
          else
            (case JSON_parse stored of
               None \<Rightarrow> (localStorage(''user'' := None), None)
             | Some user \<Rightarrow>
                 if isTokenValid now user then (localStorage, user)
                 else (localStorage(''user'' := None), None)))"

subsection \<open>The two normalisations\<close>

text \<open>
  What makes a login fail. Each function's body runs in one \<open>try\<close> whose \<open>catch\<close> logs
  the error and returns \<open>null\<close>; the \<open>_body\<close> functions are the bodies, the error kept.
\<close>

datatype login_error =
    InvalidToken string
  | FetchThrew string
  | AuthenticationFailed string
  | BodyUnreadable
  | InvalidResponse string

text \<open>\<open>jwtDecode\<close> throws on a token it cannot decode: \<open>Inl\<close> is the message.\<close>

definition decodeGoogleToken_body :: "(string \<Rightarrow> string + jwt_payload) \<Rightarrow> string \<Rightarrow> login_error + User" where
  "decodeGoogleToken_body jwtDecode token =
     (case jwtDecode token of
        Inl msg \<Rightarrow> Inl (InvalidToken msg)
      | Inr decoded \<Rightarrow>
          if \<not> truthy (claim_email decoded) then Inl (InvalidToken ''Invalid token: missing email'')
          else Inr \<lparr>u_id = claim_sub decoded,
                    u_email = claim_email decoded,
                    u_name = js_or (claim_name decoded) (JStr ''User''),
                    u_picture = claim_picture decoded,
                    u_provider = ''google'',
                    u_token = JStr token,
                    u_tokenExpiry =
                      (case claim_exp decoded of
                         None \<Rightarrow> None
                       | Some e \<Rightarrow> if e \<noteq> 0 then Some (e * 1000) else None)\<rparr>)"

definition decodeGoogleToken :: "(string \<Rightarrow> string + jwt_payload) \<Rightarrow> string \<Rightarrow> User option" where
  "decodeGoogleToken jwtDecode token =
     (case decodeGoogleToken_body jwtDecode token of Inl e \<Rightarrow> None | Inr user \<Rightarrow> Some user)"

text \<open>
  What \<open>fetch\<close> gives: it throws, or a response with its status, status text and body;
  the body is \<open>None\<close> when \<open>response.json()\<close> throws or yields \<open>null\<close>.
\<close>

datatype fetch_result = FetchError string | FetchResponse nat string "callback_body option"

definition response_ok :: "nat \<Rightarrow> bool" where
  "response_ok st = (200 \<le> st \<and> st \<le> 299)"

definition handleGitHubCallback_body ::
  "(int \<Rightarrow> string) \<Rightarrow> (string \<Rightarrow> fetch_result) \<Rightarrow> string \<Rightarrow> login_error + User" where
  "handleGitHubCallback_body unsafe_toString post_callback code =
     (case post_callback code of
        FetchError msg \<Rightarrow> Inl (FetchThrew msg)
      | FetchResponse st statusText body \<Rightarrow>
          if \<not> response_ok st then
            (let errorMsg = ''HTTP '' @ string_of_nat st in
             Inl (AuthenticationFailed (''GitHub authentication failed: '' @
               (case body of
                  Some errorData \<Rightarrow>
                    to_string unsafe_toString (js_or (cb_message errorData)
                                 (js_or (cb_details errorData) (JStr errorMsg)))
                | None \<Rightarrow> if statusText \<noteq> [] then statusText else errorMsg))))
          else
            (case body of
               None \<Rightarrow> Inl BodyUnreadable
             | Some data \<Rightarrow>
                 if \<not> truthy (cb_access_token data) \<or> \<not> truthy (cb_github_id data) then
                   Inl (InvalidResponse
                          ''Invalid response from GitHub callback: missing token or user ID'')
                 else
                   Inr \<lparr>u_id = cb_github_id data,
                        u_email = js_or (cb_email data)
                                    (JStr (''user_'' @ to_string unsafe_toString (cb_github_id data)
                                             @ ''@github.com'')),
                        u_name = cb_login data,
                        u_picture = cb_avatar_url data,
                        u_provider = ''github'',
                        u_token = cb_access_token data,
                        u_tokenExpiry = cb_token_expiry data\<rparr>))"

text \<open>On success the user is saved to the store before it is returned.\<close>

definition handleGitHubCallback ::
  "(int \<Rightarrow> string) \<Rightarrow> (string \<Rightarrow> fetch_result) \<Rightarrow> string \<Rightarrow> storage
     \<Rightarrow> storage \<times> User option" where
  "handleGitHubCallback unsafe_toString post_callback code localStorage =
     (case handleGitHubCallback_body unsafe_toString post_callback code of
        Inl e \<Rightarrow> (localStorage, None)
      | Inr user \<Rightarrow> (saveUserToStorage user localStorage, Some user))"

text \<open>
  The client's \<open>fetch\<close> when it reaches the endpoint above: the handler's status and body,
  under any status text.
\<close>

definition served :: "string \<Rightarrow> nat \<times> callback_body \<Rightarrow> fetch_result" where
  "served statusText answer = FetchResponse (fst answer) statusText (Some (snd answer))"

section \<open>App.tsx: the redirect-back handler\<close>

text \<open>
  The page: the visible location (its path and the decoded parameters of its query
  string, in order), the log console, and the session store.
  \<open>window.history.replaceState({}, document.title, window.location.pathname)\<close> leaves the
  path alone in the location.
\<close>

record page =
  pathname :: string
  search :: "(string \<times> string) list"
  logs :: "(string \<times> string \<times> string) list"
  localStorage :: storage

text \<open>\<open>URLSearchParams.get\<close>: the first value under the name, or \<open>null\<close>.\<close>

definition params_get :: "(string \<times> string) list \<Rightarrow> string \<Rightarrow> string option" where
  "params_get params name = map_of params name"

definition addLog :: "string \<Rightarrow> string \<Rightarrow> string \<Rightarrow> page \<Rightarrow> page" where
  "addLog source message type pg = pg\<lparr>logs := logs pg @ [(source, message, type)]\<rparr>"

definition replaceState :: "page \<Rightarrow> page" where
  "replaceState pg = pg\<lparr>search := []\<rparr>"

text \<open>
  \<open>handleGitHubCallbackFlow\<close>. \<open>handleGitHubCallback\<close> catches every error itself, so the
  flow's own \<open>catch\<close> is never entered. The success message's leading check mark is
  left out.
\<close>

definition handleGitHubCallbackFlow ::
  "(int \<Rightarrow> string) \<Rightarrow> (string \<Rightarrow> fetch_result) \<Rightarrow> page \<Rightarrow> page" where
  "handleGitHubCallbackFlow unsafe_toString post_callback pg =
     (let code = params_get (search pg) ''code'';
          error = params_get (search pg) ''error''
      in
      if present error then
        replaceState (addLog ''Client'' (''GitHub OAuth error: '' @ the error) ''error'' pg)
      else if present code then
        (let pg1 = addLog ''Client'' ''Processing GitHub OAuth callback...'' ''info'' pg;
             (st, gitHubUser) =
               handleGitHubCallback unsafe_toString post_callback (the code) (localStorage pg1);
             pg2 = pg1\<lparr>localStorage := st\<rparr>
         in
         case gitHubUser of
           Some user \<Rightarrow>
             replaceState
               (addLog ''Client''
                  (''GitHub authentication successful: '' @ to_string unsafe_toString (u_email user))
                  ''success'' pg2)
         | None \<Rightarrow>
             addLog ''Client''
               ''GitHub authentication failed - check browser console for details''
               ''error'' pg2)
      else pg)"


section \<open>Properties of the middleware\<close>

lemma authenticate_never_500:
  "snd (authenticate API_KEY jwt_decode axios_get_user hdrs) \<noteq> Reply 500 e m"
  by (auto simp: authenticate_def present_def Let_def split: sum.splits)

text \<open>
  Claim C1, as the code has it. When the provider call of the bearer-token verification
  throws, the middleware answers 401 Unauthorized with the message of the error, whether
  the error is a transport error or the provider's rejection of the token: the two
  differ in the message only. The middleware never answers 500.
\<close>

theorem verification_error_answers_401:
  "(hdrs ''authorization'' = Some a \<and> prefix ''Bearer '' a
      \<and> hdrs ''x-user-provider'' = Some ''github''
      \<and> axios_get_user (drop 7 a) = Inl err \<longrightarrow>
    authenticate API_KEY jwt_decode axios_get_user hdrs =
      ([GitHubUserCall (drop 7 a)],
       Reply 401 ''Unauthorized'' (''GitHub token verification failed: '' @ error_message err)))
   \<and> snd (authenticate API_KEY jwt_decode axios_get_user hdrs) \<noteq> Reply 500 e m"
proof (intro conjI impI)
  assume h: "hdrs ''authorization'' = Some a \<and> prefix ''Bearer '' a
      \<and> hdrs ''x-user-provider'' = Some ''github''
      \<and> axios_get_user (drop 7 a) = Inl err"
  then have "a \<noteq> []" by auto
  moreover have "verifyGitHubToken axios_get_user (drop 7 a) =
      Inl (''GitHub token verification failed: '' @ error_message err)"
    using h by (simp add: verifyGitHubToken_def)
  ultimately show "authenticate API_KEY jwt_decode axios_get_user hdrs =
      ([GitHubUserCall (drop 7 a)],
       Reply 401 ''Unauthorized'' (''GitHub token verification failed: '' @ error_message err))"
    using h by (simp add: authenticate_def present_def Let_def)
next
  show "snd (authenticate API_KEY jwt_decode axios_get_user hdrs) \<noteq> Reply 500 e m"
    by (rule authenticate_never_500)
qed

theorem verification_error_answers_401_witness:
  "authenticate (Some ''secret'') (\<lambda>t. None) (\<lambda>t. Inl (ResponseError 401 JUndefined))
     [''authorization'' \<mapsto> ''Bearer t1'', ''x-user-provider'' \<mapsto> ''github''] =
   ([GitHubUserCall ''t1''],
    Reply 401 ''Unauthorized''
      ''GitHub token verification failed: Request failed with status code 401'')"
  using verification_error_answers_401
    [of "[''authorization'' \<mapsto> ''Bearer t1'', ''x-user-provider'' \<mapsto> ''github'']"
        "''Bearer t1''" "\<lambda>t. Inl (ResponseError 401 JUndefined)" "ResponseError 401 JUndefined"
        "Some ''secret''" "\<lambda>t. None"]
  by (simp add: string_of_nat.simps digit_char_def)

text \<open>
  Claim C1 as stated fails: a transport error of the verification call (no response
  from the provider) is answered 401, as the provider's rejection is, not 500.
\<close>

theorem transport_error_answered_401_counterexample:
  "snd (authenticate (Some ''secret'') (\<lambda>t. None) (\<lambda>t. Inl (TransportError ''connect ECONNREFUSED''))
          [''authorization'' \<mapsto> ''Bearer t1'', ''x-user-provider'' \<mapsto> ''github''])
     = Reply 401 ''Unauthorized'' ''GitHub token verification failed: connect ECONNREFUSED''"
  by (simp add: authenticate_def present_def Let_def verifyGitHubToken_def)

text \<open>
  Claim C8. A request with a bearer token in its Authorization header and no
  X-User-Provider header (or an empty one) is answered 400 Bad Request, and no
  verification is run: the answer does not depend on the verifiers.
\<close>

theorem bearer_without_provider_answers_400:
  assumes "hdrs ''authorization'' = Some a" and "prefix ''Bearer '' a"
    and "\<not> present (hdrs ''x-user-provider'')"
  shows "authenticate API_KEY jwt_decode axios_get_user hdrs =
           ([], Reply 400 ''Bad Request'' ''Missing x-user-provider header'')"
proof -
  from assms(2) have "a \<noteq> []" by auto
  with assms show ?thesis
    by (simp add: authenticate_def present_def Let_def)
qed

theorem bearer_without_provider_answers_400_witness:
  "authenticate (Some ''secret'')
     (\<lambda>t. Some \<lparr>claim_sub = JStr ''1'', claim_email = JStr ''a@b.c'', claim_name = JStr ''Ann'',
                 claim_picture = JUndefined, claim_exp = None\<rparr>)
     (\<lambda>t. Inl (TransportError ''down''))
     [''authorization'' \<mapsto> ''Bearer X''] =
   ([], Reply 400 ''Bad Request'' ''Missing x-user-provider header'')"
  using bearer_without_provider_answers_400
    [of "[''authorization'' \<mapsto> ''Bearer X'']" "''Bearer X''"]
  by (simp add: present_def)

text \<open>
  Claim C9. A request whose Authorization header is there but does not begin with
  \<open>Bearer \<close> gets the answer of the same request without the header: the bearer
  credential counts as absent. So with an X-API-Key header equal to the configured key
  (a key is configured: it is not empty) the request is authenticated as the static-key
  client, and with no key present it is answered 401, not 400.
\<close>

theorem non_bearer_authorization_is_ignored:
  assumes "hdrs ''authorization'' = Some a" and "\<not> prefix ''Bearer '' a"
  shows "authenticate API_KEY jwt_decode axios_get_user hdrs =
           authenticate API_KEY jwt_decode axios_get_user (hdrs(''authorization'' := None))
       \<and> (hdrs ''x-api-key'' = Some k \<and> present (Some k) \<and> API_KEY = Some k \<longrightarrow>
            authenticate API_KEY jwt_decode axios_get_user hdrs =
              ([], Next \<lparr>p_email = JStr ''api-client'', p_name = JUndefined, p_id = JUndefined,
                         p_provider = ''api-key'', p_token = k\<rparr>))
       \<and> (\<not> present (hdrs ''x-api-key'') \<longrightarrow>
            authenticate API_KEY jwt_decode axios_get_user hdrs =
              ([], Reply 401 ''Unauthorized''
                     ''Missing authentication credentials (OAuth token or API Key)''))"
  using assms by (auto simp: authenticate_def present_def Let_def)

theorem non_bearer_authorization_is_ignored_witness:
  "authenticate (Some ''secret'') (\<lambda>t. None) (\<lambda>t. Inl (TransportError ''down''))
     [''authorization'' \<mapsto> ''Basic dXNlcg=='', ''x-api-key'' \<mapsto> ''secret''] =
     ([], Next \<lparr>p_email = JStr ''api-client'', p_name = JUndefined, p_id = JUndefined,
                p_provider = ''api-key'', p_token = ''secret''\<rparr>)
   \<and> authenticate (Some ''secret'') (\<lambda>t. None) (\<lambda>t. Inl (TransportError ''down''))
       [''authorization'' \<mapsto> ''Basic dXNlcg==''] =
     ([], Reply 401 ''Unauthorized''
            ''Missing authentication credentials (OAuth token or API Key)'')"
  using non_bearer_authorization_is_ignored
    [of "[''authorization'' \<mapsto> ''Basic dXNlcg=='', ''x-api-key'' \<mapsto> ''secret'']"
        "''Basic dXNlcg==''" "Some ''secret''" "\<lambda>t. None" "\<lambda>t. Inl (TransportError ''down'')"
        "''secret''"]
    non_bearer_authorization_is_ignored
    [of "[''authorization'' \<mapsto> ''Basic dXNlcg=='']"
        "''Basic dXNlcg==''" "Some ''secret''" "\<lambda>t. None" "\<lambda>t. Inl (TransportError ''down'')"]
  by (simp add: present_def authenticate_def Let_def)

text \<open>
  Claim C10. A principal that the middleware passes on with provider \<open>api-key\<close> came from
  the static-key path, and is exactly \<open>{email: 'api-client', provider: 'api-key', token: key}\<close>
  for the request's key, with no \<open>id\<close> and no \<open>name\<close>; a record that \<open>POST /api/records\<close> then
  creates has \<open>authenticatedBy.userId\<close> and \<open>authenticatedBy.name\<close> undefined.
\<close>

theorem static_key_principal:
  assumes "authenticate API_KEY jwt_decode axios_get_user hdrs = (vs, Next user)"
    and "p_provider user = ''api-key''"
  shows "(\<exists>k. hdrs ''x-api-key'' = Some k \<and> API_KEY = Some k \<and>
           user = \<lparr>p_email = JStr ''api-client'', p_name = JUndefined, p_id = JUndefined,
                    p_provider = ''api-key'', p_token = k\<rparr>)
       \<and> (post_records_route API_KEY jwt_decode axios_get_user save hdrs b = Created r rid \<longrightarrow>
            authenticatedBy r =
              \<lparr>ab_provider = ''api-key'', ab_email = JStr ''api-client'',
               ab_userId = JUndefined, ab_name = JUndefined\<rparr>)"
proof -
  have user: "\<exists>k. hdrs ''x-api-key'' = Some k \<and> API_KEY = Some k \<and>
           user = \<lparr>p_email = JStr ''api-client'', p_name = JUndefined, p_id = JUndefined,
                    p_provider = ''api-key'', p_token = k\<rparr>"
    using assms
    by (auto simp: authenticate_def present_def Let_def split: if_splits sum.splits option.splits)
  moreover have "authenticatedBy r =
              \<lparr>ab_provider = ''api-key'', ab_email = JStr ''api-client'',
               ab_userId = JUndefined, ab_name = JUndefined\<rparr>"
    if "post_records_route API_KEY jwt_decode axios_get_user save hdrs b = Created r rid"
    using that user assms(1)
    by (auto simp: post_records_route_def post_records_def new_record_def Let_def
        split: if_splits sum.splits)
  ultimately show ?thesis by blast
qed

theorem static_key_principal_witness:
  "authenticate (Some ''secret'') (\<lambda>t. None) (\<lambda>t. Inl (TransportError ''down''))
     [''x-api-key'' \<mapsto> ''secret''] =
     ([], Next \<lparr>p_email = JStr ''api-client'', p_name = JUndefined, p_id = JUndefined,
                p_provider = ''api-key'', p_token = ''secret''\<rparr>)
   \<and> post_records_route (Some ''secret'') (\<lambda>t. None) (\<lambda>t. Inl (TransportError ''down''))
       (\<lambda>r. Inr ''rec1'') [''x-api-key'' \<mapsto> ''secret'']
       \<lparr>body_location = Some ''Colombo'', body_demographics = Some ''LK'',
        body_clientIp = None, body_metadata = None\<rparr> =
     Created
       \<lparr>rec_clientIp = None, rec_location = Some ''Colombo'', rec_demographics = Some ''LK'',
        rec_metadata = None,
        authenticatedBy =
          \<lparr>ab_provider = ''api-key'', ab_email = JStr ''api-client'',
           ab_userId = JUndefined, ab_name = JUndefined\<rparr>\<rparr> ''rec1''"
  using static_key_principal
    [of "Some ''secret''" "\<lambda>t. None" "\<lambda>t. Inl (TransportError ''down'')"
        "[''x-api-key'' \<mapsto> ''secret'']" "[]"
        "\<lparr>p_email = JStr ''api-client'', p_name = JUndefined, p_id = JUndefined,
          p_provider = ''api-key'', p_token = ''secret''\<rparr>"
        "\<lambda>r. Inr ''rec1''"
        "\<lparr>body_location = Some ''Colombo'', body_demographics = Some ''LK'',
          body_clientIp = None, body_metadata = None\<rparr>"]
  by (simp add: authenticate_def present_def Let_def post_records_route_def post_records_def
      new_record_def)


section \<open>Properties of the identity normalisations\<close>

text \<open>
  Claim C4. For a token whose decoded payload has no email claim (or a falsy one: \<open>null\<close>,
  the empty string), the body of \<open>decodeGoogleToken\<close> throws the invalid-token error
  \<open>Invalid token: missing email\<close>, and \<open>decodeGoogleToken\<close> returns \<open>null\<close>: no identity.
\<close>

theorem missing_email_is_invalid_token:
  assumes "jwtDecode token = Inr decoded" and "\<not> truthy (claim_email decoded)"
  shows "decodeGoogleToken_body jwtDecode token = Inl (InvalidToken ''Invalid token: missing email'')
       \<and> decodeGoogleToken jwtDecode token = None"
proof -
  from assms have "decodeGoogleToken_body jwtDecode token =
      Inl (InvalidToken ''Invalid token: missing email'')"
    by (simp add: decodeGoogleToken_body_def)
  then show ?thesis
    by (simp add: decodeGoogleToken_def)
qed

theorem missing_email_is_invalid_token_witness:
  "decodeGoogleToken_body
     (\<lambda>t. Inr \<lparr>claim_sub = JStr ''1093'', claim_email = JUndefined, claim_name = JStr ''Ann'',
               claim_picture = JUndefined, claim_exp = Some 1700000000\<rparr>) ''h.p.s''
     = Inl (InvalidToken ''Invalid token: missing email'')
   \<and> decodeGoogleToken
     (\<lambda>t. Inr \<lparr>claim_sub = JStr ''1093'', claim_email = JUndefined, claim_name = JStr ''Ann'',
               claim_picture = JUndefined, claim_exp = Some 1700000000\<rparr>) ''h.p.s'' = None"
  using missing_email_is_invalid_token
    [of "\<lambda>t. Inr \<lparr>claim_sub = JStr ''1093'', claim_email = JUndefined, claim_name = JStr ''Ann'',
               claim_picture = JUndefined, claim_exp = Some 1700000000\<rparr>" "''h.p.s''"
        "\<lparr>claim_sub = JStr ''1093'', claim_email = JUndefined, claim_name = JStr ''Ann'',
          claim_picture = JUndefined, claim_exp = Some 1700000000\<rparr>"]
  by simp

lemma decodeGoogleToken_Some:
  assumes "decodeGoogleToken jwtDecode token = Some u"
  obtains decoded where "jwtDecode token = Inr decoded" and "truthy (claim_email decoded)"
    and "u_email u = claim_email decoded" and "u_id u = claim_sub decoded"
    and "u_provider u = ''google''"
  using assms
  by (auto simp: decodeGoogleToken_def decodeGoogleToken_body_def split: sum.splits if_splits)

lemma handleGitHubCallback_Some:
  assumes "handleGitHubCallback unsafe_toString post_callback code st = (st', Some u)"
  obtains stt stx data where "post_callback code = FetchResponse stt stx (Some data)"
    and "response_ok stt" and "truthy (cb_access_token data)" and "truthy (cb_github_id data)"
    and "u_id u = cb_github_id data"
    and "u_email u = js_or (cb_email data)
           (JStr (''user_'' @ to_string unsafe_toString (cb_github_id data) @ ''@github.com''))"
    and "u_provider u = ''github''"
    and "st' = saveUserToStorage u st"
  using assms
  by (auto simp: handleGitHubCallback_def handleGitHubCallback_body_def Let_def
       split: sum.splits if_splits fetch_result.splits option.splits)

text \<open>
  Claim C3, as the code has it. An identity built by either normalisation has a
  non-empty (truthy) email, and its provider is \<open>google\<close> on the signed-token path and
  \<open>github\<close> on the provider-profile path. On the provider-profile path the id is
  non-empty too; on the signed-token path the id is the token's \<open>sub\<close> claim as it is,
  which the code does not check.
\<close>

theorem identity_email_and_provider:
  "(decodeGoogleToken jwtDecode token = Some u \<longrightarrow>
      truthy (u_email u) \<and> u_provider u = ''google''
      \<and> (\<exists>decoded. jwtDecode token = Inr decoded \<and> u_id u = claim_sub decoded))
 \<and> (handleGitHubCallback unsafe_toString post_callback code st = (st', Some v) \<longrightarrow>
      truthy (u_email v) \<and> truthy (u_id v) \<and> u_provider v = ''github'')"
proof -
  have google: "truthy (u_email u) \<and> u_provider u = ''google''
      \<and> (\<exists>decoded. jwtDecode token = Inr decoded \<and> u_id u = claim_sub decoded)"
    if "decodeGoogleToken jwtDecode token = Some u"
    using that by (elim decodeGoogleToken_Some) auto
  have github: "truthy (u_email v) \<and> truthy (u_id v) \<and> u_provider v = ''github''"
    if "handleGitHubCallback unsafe_toString post_callback code st = (st', Some v)"
    using that by (elim handleGitHubCallback_Some) (auto simp: js_or_def)
  from google github show ?thesis by blast
qed

theorem identity_email_and_provider_witness:
  "decodeGoogleToken
     (\<lambda>t. Inr \<lparr>claim_sub = JStr ''1093'', claim_email = JStr ''ann@example.org'',
               claim_name = JStr ''Ann'', claim_picture = JUndefined,
               claim_exp = Some 1700000000\<rparr>) ''h.p.s''
     = Some \<lparr>u_id = JStr ''1093'', u_email = JStr ''ann@example.org'', u_name = JStr ''Ann'',
             u_picture = JUndefined, u_provider = ''google'', u_token = JStr ''h.p.s'',
             u_tokenExpiry = Some 1700000000000\<rparr>
   \<and> handleGitHubCallback (\<lambda>n. ''1e+21'')
       (\<lambda>c. FetchResponse 200 ''OK''
               (Some (empty_body\<lparr>cb_success := JBool True, cb_access_token := JStr ''t1'',
                        cb_github_id := JNum 42, cb_login := JStr ''bob'',
                        cb_email := JStr ''bob@example.org''\<rparr>)))
       ''abc123'' Map.empty
     = ([''user'' \<mapsto> JsonUser
           \<lparr>u_id = JNum 42, u_email = JStr ''bob@example.org'', u_name = JStr ''bob'',
            u_picture = JUndefined, u_provider = ''github'', u_token = JStr ''t1'',
            u_tokenExpiry = None\<rparr>],
        Some \<lparr>u_id = JNum 42, u_email = JStr ''bob@example.org'', u_name = JStr ''bob'',
            u_picture = JUndefined, u_provider = ''github'', u_token = JStr ''t1'',
            u_tokenExpiry = None\<rparr>)"
  using identity_email_and_provider
    [of "\<lambda>t. Inr \<lparr>claim_sub = JStr ''1093'', claim_email = JStr ''ann@example.org'',
               claim_name = JStr ''Ann'', claim_picture = JUndefined,
               claim_exp = Some 1700000000\<rparr>" "''h.p.s''"
        "\<lparr>u_id = JStr ''1093'', u_email = JStr ''ann@example.org'', u_name = JStr ''Ann'',
             u_picture = JUndefined, u_provider = ''google'', u_token = JStr ''h.p.s'',
             u_tokenExpiry = Some 1700000000000\<rparr>"
        "\<lambda>n. ''1e+21''"
        "\<lambda>c. FetchResponse 200 ''OK''
               (Some (empty_body\<lparr>cb_success := JBool True, cb_access_token := JStr ''t1'',
                        cb_github_id := JNum 42, cb_login := JStr ''bob'',
                        cb_email := JStr ''bob@example.org''\<rparr>))"
        "''abc123''" "Map.empty"
        "[''user'' \<mapsto> JsonUser
           \<lparr>u_id = JNum 42, u_email = JStr ''bob@example.org'', u_name = JStr ''bob'',
            u_picture = JUndefined, u_provider = ''github'', u_token = JStr ''t1'',
            u_tokenExpiry = None\<rparr>]"
        "\<lparr>u_id = JNum 42, u_email = JStr ''bob@example.org'', u_name = JStr ''bob'',
            u_picture = JUndefined, u_provider = ''github'', u_token = JStr ''t1'',
            u_tokenExpiry = None\<rparr>"]
  by (simp add: decodeGoogleToken_def decodeGoogleToken_body_def js_or_def
      handleGitHubCallback_def handleGitHubCallback_body_def response_ok_def empty_body_def
      saveUserToStorage_def JSON_stringify_def)

text \<open>
  Claim C3 as stated fails on the signed-token path: a token whose payload has an email
  and no \<open>sub\<close> claim gives an identity whose id is \<open>undefined\<close>.
\<close>

theorem identity_without_id_counterexample:
  "map_option u_id
     (decodeGoogleToken
        (\<lambda>t. Inr \<lparr>claim_sub = JUndefined, claim_email = JStr ''ann@example.org'',
                  claim_name = JStr ''Ann'', claim_picture = JUndefined, claim_exp = None\<rparr>)
        ''h.p.s'') = Some JUndefined
   \<and> \<not> truthy JUndefined"
  by (simp add: decodeGoogleToken_def decodeGoogleToken_body_def)

lemma github_callback_200:
  assumes "github_callback unsafe_toString clientId clientSecret axios_post_token axios_get_user c
             = (200, data)"
  shows "truthy (cb_access_token data) \<and> cb_token_expiry data = None"
  using assms
  by (auto simp: github_callback_def error_body_def empty_body_def Let_def
       split: if_splits sum.splits)

text \<open>
  Claim C5, as the code has it. When the exchange endpoint answers a code with success
  (status 200) and the answer's email is \<open>null\<close> (or otherwise falsy), what
  \<open>handleGitHubCallback\<close> does depends on the provider's user id in the answer. With the
  id present (truthy: not missing, not 0, not empty) it builds, saves and returns the
  identity whose email is \<open>user_<id>@github.com\<close>, whose provider is \<open>github\<close>, whose token
  is the answer's \<open>access_token\<close>, and which has no token expiry. With the id missing or
  falsy it rejects the answer: no identity, and the store is untouched.
\<close>

theorem null_email_gets_placeholder:
  assumes "github_callback unsafe_toString clientId clientSecret axios_post_token axios_get_user
             (JStr c) = (200, data)"
    and "\<not> truthy (cb_email data)"
  shows "(truthy (cb_github_id data) \<longrightarrow>
      handleGitHubCallback unsafe_toString
        (\<lambda>c. served stx (github_callback unsafe_toString clientId clientSecret axios_post_token
                            axios_get_user (JStr c)))
        c st =
      (saveUserToStorage
         \<lparr>u_id = cb_github_id data,
          u_email = JStr (''user_'' @ to_string unsafe_toString (cb_github_id data)
                            @ ''@github.com''),
          u_name = cb_login data, u_picture = cb_avatar_url data, u_provider = ''github'',
          u_token = cb_access_token data, u_tokenExpiry = None\<rparr> st,
       Some \<lparr>u_id = cb_github_id data,
          u_email = JStr (''user_'' @ to_string unsafe_toString (cb_github_id data)
                            @ ''@github.com''),
          u_name = cb_login data, u_picture = cb_avatar_url data, u_provider = ''github'',
          u_token = cb_access_token data, u_tokenExpiry = None\<rparr>))
   \<and> (\<not> truthy (cb_github_id data) \<longrightarrow>
      handleGitHubCallback unsafe_toString
        (\<lambda>c. served stx (github_callback unsafe_toString clientId clientSecret axios_post_token
                            axios_get_user (JStr c)))
        c st = (st, None))"
proof -
  from github_callback_200 [OF assms(1)]
  have tok: "truthy (cb_access_token data)" and no_expiry: "cb_token_expiry data = None"
    by simp_all
  have body: "handleGitHubCallback_body unsafe_toString
        (\<lambda>c. served stx (github_callback unsafe_toString clientId clientSecret axios_post_token
                            axios_get_user (JStr c))) c =
      (if \<not> truthy (cb_github_id data) then
         Inl (InvalidResponse ''Invalid response from GitHub callback: missing token or user ID'')
       else
         Inr \<lparr>u_id = cb_github_id data,
              u_email = JStr (''user_'' @ to_string unsafe_toString (cb_github_id data)
                                @ ''@github.com''),
              u_name = cb_login data, u_picture = cb_avatar_url data, u_provider = ''github'',
              u_token = cb_access_token data, u_tokenExpiry = None\<rparr>)"
    using assms tok no_expiry
    by (simp add: handleGitHubCallback_body_def served_def response_ok_def js_or_def)
  show ?thesis
    by (simp add: handleGitHubCallback_def body)
qed

theorem null_email_gets_placeholder_witness:
  "handleGitHubCallback (\<lambda>n. ''1e+21'')
     (\<lambda>c. served ''OK''
        (github_callback (\<lambda>n. ''1e+21'') (Some ''client'') (Some ''secret'')
           (\<lambda>i s c. Inr \<lparr>td_error = JUndefined, td_error_description = JUndefined,
                          td_access_token = JStr ''t1''\<rparr>)
           (\<lambda>t. Inr \<lparr>gh_id = JNum 42, gh_login = JStr ''bob'', gh_email = JNull,
                     gh_name = JUndefined, gh_avatar_url = JUndefined\<rparr>)
           (JStr c)))
     ''abc123'' Map.empty =
   ([''user'' \<mapsto> JsonUser
        \<lparr>u_id = JNum 42, u_email = JStr ''user_42@github.com'', u_name = JStr ''bob'',
         u_picture = JUndefined, u_provider = ''github'', u_token = JStr ''t1'',
         u_tokenExpiry = None\<rparr>],
    Some \<lparr>u_id = JNum 42, u_email = JStr ''user_42@github.com'', u_name = JStr ''bob'',
         u_picture = JUndefined, u_provider = ''github'', u_token = JStr ''t1'',
         u_tokenExpiry = None\<rparr>)
 \<and> handleGitHubCallback (\<lambda>n. ''1e+21'')
     (\<lambda>c. served ''OK''
        (github_callback (\<lambda>n. ''1e+21'') (Some ''client'') (Some ''secret'')
           (\<lambda>i s c. Inr \<lparr>td_error = JUndefined, td_error_description = JUndefined,
                          td_access_token = JStr ''t1''\<rparr>)
           (\<lambda>t. Inr \<lparr>gh_id = JUndefined, gh_login = JStr ''bob'', gh_email = JNull,
                     gh_name = JUndefined, gh_avatar_url = JUndefined\<rparr>)
           (JStr c)))
     ''abc123'' Map.empty = (Map.empty, None)"
  using null_email_gets_placeholder
    [of "\<lambda>n. ''1e+21''" "Some ''client''" "Some ''secret''"
        "\<lambda>i s c. Inr \<lparr>td_error = JUndefined, td_error_description = JUndefined,
                          td_access_token = JStr ''t1''\<rparr>"
        "\<lambda>t. Inr \<lparr>gh_id = JNum 42, gh_login = JStr ''bob'', gh_email = JNull,
                     gh_name = JUndefined, gh_avatar_url = JUndefined\<rparr>"
        "''abc123''"
        "empty_body\<lparr>cb_success := JBool True, cb_access_token := JStr ''t1'',
           cb_github_id := JNum 42, cb_login := JStr ''bob'', cb_email := JNull,
           cb_avatar_url := JUndefined, cb_name := JUndefined\<rparr>"
        "''OK''" "Map.empty"]
    null_email_gets_placeholder
    [of "\<lambda>n. ''1e+21''" "Some ''client''" "Some ''secret''"
        "\<lambda>i s c. Inr \<lparr>td_error = JUndefined, td_error_description = JUndefined,
                          td_access_token = JStr ''t1''\<rparr>"
        "\<lambda>t. Inr \<lparr>gh_id = JUndefined, gh_login = JStr ''bob'', gh_email = JNull,
                     gh_name = JUndefined, gh_avatar_url = JUndefined\<rparr>"
        "''abc123''"
        "empty_body\<lparr>cb_success := JBool True, cb_access_token := JStr ''t1'',
           cb_github_id := JUndefined, cb_login := JStr ''bob'', cb_email := JNull,
           cb_avatar_url := JUndefined, cb_name := JUndefined\<rparr>"
        "''OK''" "Map.empty"]
  by (simp add: github_callback_def present_def Let_def empty_body_def saveUserToStorage_def
      JSON_stringify_def safe_integer_def string_of_int_def string_of_nat.simps digit_char_def)

text \<open>
  Claim C5 as stated fails at a success answer without a usable id. The endpoint
  forwards the profile's id unchecked; when the profile's email is \<open>null\<close> and its id is 0,
  the endpoint still answers 200 with success, and the client throws
  \<open>missing token or user ID\<close>: no placeholder email, no identity.
\<close>

theorem success_without_id_counterexample:
  "fst (github_callback (\<lambda>n. ''1e+21'') (Some ''client'') (Some ''secret'')
          (\<lambda>i s c. Inr \<lparr>td_error = JUndefined, td_error_description = JUndefined,
                         td_access_token = JStr ''t1''\<rparr>)
          (\<lambda>t. Inr \<lparr>gh_id = JNum 0, gh_login = JStr ''bob'', gh_email = JNull,
                    gh_name = JUndefined, gh_avatar_url = JUndefined\<rparr>)
          (JStr ''abc123'')) = 200
 \<and> cb_success (snd (github_callback (\<lambda>n. ''1e+21'') (Some ''client'') (Some ''secret'')
          (\<lambda>i s c. Inr \<lparr>td_error = JUndefined, td_error_description = JUndefined,
                         td_access_token = JStr ''t1''\<rparr>)
          (\<lambda>t. Inr \<lparr>gh_id = JNum 0, gh_login = JStr ''bob'', gh_email = JNull,
                    gh_name = JUndefined, gh_avatar_url = JUndefined\<rparr>)
          (JStr ''abc123''))) = JBool True
 \<and> handleGitHubCallback (\<lambda>n. ''1e+21'')
     (\<lambda>c. served ''OK''
        (github_callback (\<lambda>n. ''1e+21'') (Some ''client'') (Some ''secret'')
           (\<lambda>i s c. Inr \<lparr>td_error = JUndefined, td_error_description = JUndefined,
                          td_access_token = JStr ''t1''\<rparr>)
           (\<lambda>t. Inr \<lparr>gh_id = JNum 0, gh_login = JStr ''bob'', gh_email = JNull,
                     gh_name = JUndefined, gh_avatar_url = JUndefined\<rparr>)
           (JStr c)))
     ''abc123'' Map.empty = (Map.empty, None)"
  by (simp add: github_callback_def present_def Let_def empty_body_def served_def
      handleGitHubCallback_def handleGitHubCallback_body_def response_ok_def)

section \<open>Properties of the session store\<close>

lemma JSON_parse_user: "JSON_parse stored = Some (Some v) \<longleftrightarrow> stored = JsonUser v"
  by (cases stored) auto

lemma isTokenValid_not_expired:
  "isTokenValid now (Some u) \<longleftrightarrow>
     u_tokenExpiry u = None \<or> u_tokenExpiry u = Some 0 \<or> (\<exists>t. u_tokenExpiry u = Some t \<and> now < t)"
  by (auto simp: isTokenValid_def split: option.splits)

text \<open>
  Claim C6, as the code has it. For a stored identity whose \<open>tokenExpiry\<close> is set (not 0)
  and not later than the current time, and for a non-empty stored text that fails to
  parse, \<open>getUserFromStorage\<close> returns \<open>null\<close> and removes the stored record. An identity it
  returns is the stored one, left in the store, and passes \<open>isTokenValid\<close>.
\<close>

theorem expired_or_malformed_record_is_removed:
  "(st ''user'' = Some (JsonUser u) \<and> u_tokenExpiry u = Some t \<and> t \<noteq> 0 \<and> t \<le> now \<longrightarrow>
      getUserFromStorage now st = (st(''user'' := None), None))
 \<and> (st ''user'' = Some (Malformed s) \<and> s \<noteq> [] \<longrightarrow>
      getUserFromStorage now st = (st(''user'' := None), None))
 \<and> (getUserFromStorage now st = (st', Some v) \<longrightarrow>
      st' = st \<and> st ''user'' = Some (JsonUser v) \<and> isTokenValid now (Some v))"
proof -
  have expired: "getUserFromStorage now st = (st(''user'' := None), None)"
    if "st ''user'' = Some (JsonUser u)" "u_tokenExpiry u = Some t" "t \<noteq> 0" "t \<le> now"
    using that by (simp add: getUserFromStorage_def empty_text_def isTokenValid_def)
  have malformed: "getUserFromStorage now st = (st(''user'' := None), None)"
    if "st ''user'' = Some (Malformed s)" "s \<noteq> []"
    using that by (simp add: getUserFromStorage_def empty_text_def)
  have returned: "st' = st \<and> st ''user'' = Some (JsonUser v) \<and> isTokenValid now (Some v)"
    if "getUserFromStorage now st = (st', Some v)"
    using that
    by (auto simp: getUserFromStorage_def JSON_parse_user split: option.splits if_splits)
  from expired malformed returned show ?thesis by blast
qed

theorem expired_or_malformed_record_is_removed_witness:
  "getUserFromStorage 2000
     [''user'' \<mapsto> JsonUser \<lparr>u_id = JStr ''1093'', u_email = JStr ''ann@example.org'',
        u_name = JStr ''Ann'', u_picture = JUndefined, u_provider = ''google'',
        u_token = JStr ''h.p.s'', u_tokenExpiry = Some 1000\<rparr>] = (Map.empty, None)
   \<and> getUserFromStorage 2000 [''user'' \<mapsto> Malformed ''{id:'']  = (Map.empty, None)
   \<and> getUserFromStorage 2000
     [''user'' \<mapsto> JsonUser \<lparr>u_id = JStr ''1093'', u_email = JStr ''ann@example.org'',
        u_name = JStr ''Ann'', u_picture = JUndefined, u_provider = ''google'',
        u_token = JStr ''h.p.s'', u_tokenExpiry = Some 3000\<rparr>] =
     ([''user'' \<mapsto> JsonUser \<lparr>u_id = JStr ''1093'', u_email = JStr ''ann@example.org'',
        u_name = JStr ''Ann'', u_picture = JUndefined, u_provider = ''google'',
        u_token = JStr ''h.p.s'', u_tokenExpiry = Some 3000\<rparr>],
      Some \<lparr>u_id = JStr ''1093'', u_email = JStr ''ann@example.org'',
        u_name = JStr ''Ann'', u_picture = JUndefined, u_provider = ''google'',
        u_token = JStr ''h.p.s'', u_tokenExpiry = Some 3000\<rparr>)
   \<and> isTokenValid 2000 (Some \<lparr>u_id = JStr ''1093'', u_email = JStr ''ann@example.org'',
        u_name = JStr ''Ann'', u_picture = JUndefined, u_provider = ''google'',
        u_token = JStr ''h.p.s'', u_tokenExpiry = Some 3000\<rparr>)"
  using expired_or_malformed_record_is_removed
    [of "[''user'' \<mapsto> JsonUser \<lparr>u_id = JStr ''1093'', u_email = JStr ''ann@example.org'',
        u_name = JStr ''Ann'', u_picture = JUndefined, u_provider = ''google'',
        u_token = JStr ''h.p.s'', u_tokenExpiry = Some 1000\<rparr>]"
        "\<lparr>u_id = JStr ''1093'', u_email = JStr ''ann@example.org'',
        u_name = JStr ''Ann'', u_picture = JUndefined, u_provider = ''google'',
        u_token = JStr ''h.p.s'', u_tokenExpiry = Some 1000\<rparr>" 1000 2000]
    expired_or_malformed_record_is_removed
    [of "[''user'' \<mapsto> Malformed ''{id:'']" _ _ 2000 "''{id:''"]
    expired_or_malformed_record_is_removed
    [of "[''user'' \<mapsto> JsonUser \<lparr>u_id = JStr ''1093'', u_email = JStr ''ann@example.org'',
        u_name = JStr ''Ann'', u_picture = JUndefined, u_provider = ''google'',
        u_token = JStr ''h.p.s'', u_tokenExpiry = Some 3000\<rparr>]" _ _ 2000 _
        "[''user'' \<mapsto> JsonUser \<lparr>u_id = JStr ''1093'', u_email = JStr ''ann@example.org'',
        u_name = JStr ''Ann'', u_picture = JUndefined, u_provider = ''google'',
        u_token = JStr ''h.p.s'', u_tokenExpiry = Some 3000\<rparr>]"
        "\<lparr>u_id = JStr ''1093'', u_email = JStr ''ann@example.org'',
        u_name = JStr ''Ann'', u_picture = JUndefined, u_provider = ''google'',
        u_token = JStr ''h.p.s'', u_tokenExpiry = Some 3000\<rparr>"]
  by (simp add: getUserFromStorage_def empty_text_def isTokenValid_def)

text \<open>
  Claim C6 as stated fails at two stored records. An identity whose \<open>tokenExpiry\<close> is 0
  (the epoch, in the past) counts as having no expiry and is returned. The empty text,
  which does not parse, counts as no record: \<open>null\<close> is returned and the text stays.
\<close>

theorem zero_expiry_and_empty_text_counterexample:
  "getUserFromStorage 1700000000000
     [''user'' \<mapsto> JsonUser \<lparr>u_id = JStr ''1093'', u_email = JStr ''ann@example.org'',
        u_name = JStr ''Ann'', u_picture = JUndefined, u_provider = ''google'',
        u_token = JStr ''h.p.s'', u_tokenExpiry = Some 0\<rparr>]
   = ([''user'' \<mapsto> JsonUser \<lparr>u_id = JStr ''1093'', u_email = JStr ''ann@example.org'',
        u_name = JStr ''Ann'', u_picture = JUndefined, u_provider = ''google'',
        u_token = JStr ''h.p.s'', u_tokenExpiry = Some 0\<rparr>],
      Some \<lparr>u_id = JStr ''1093'', u_email = JStr ''ann@example.org'',
        u_name = JStr ''Ann'', u_picture = JUndefined, u_provider = ''google'',
        u_token = JStr ''h.p.s'', u_tokenExpiry = Some 0\<rparr>)
   \<and> (0::int) < 1700000000000
   \<and> getUserFromStorage 1700000000000 [''user'' \<mapsto> Malformed ''''] = ([''user'' \<mapsto> Malformed ''''], None)
   \<and> JSON_parse (Malformed '''') = None"
  by (simp add: getUserFromStorage_def empty_text_def isTokenValid_def)

text \<open>
  Claim C7. For an identity that is not expired (no \<open>tokenExpiry\<close>, or one later than the
  current time), \<open>saveUserToStorage\<close> followed by \<open>getUserFromStorage\<close> returns the identity
  that was saved, and leaves it in the store.
\<close>

theorem save_then_load:
  assumes "u_tokenExpiry u = None \<or> (\<exists>t. u_tokenExpiry u = Some t \<and> t > now)"
  shows "getUserFromStorage now (saveUserToStorage u st) = (saveUserToStorage u st, Some u)"
proof -
  have "saveUserToStorage u st ''user'' = Some (JsonUser u)"
    by (simp add: saveUserToStorage_def JSON_stringify_def)
  moreover from assms have "isTokenValid now (Some u)"
    by (auto simp: isTokenValid_not_expired)
  ultimately show ?thesis
    by (simp add: getUserFromStorage_def empty_text_def)
qed

theorem save_then_load_witness:
  "getUserFromStorage 2000
     (saveUserToStorage \<lparr>u_id = JStr ''1093'', u_email = JStr ''ann@example.org'',
        u_name = JStr ''Ann'', u_picture = JUndefined, u_provider = ''google'',
        u_token = JStr ''h.p.s'', u_tokenExpiry = Some 3000\<rparr> Map.empty)
   = ([''user'' \<mapsto> JsonUser \<lparr>u_id = JStr ''1093'', u_email = JStr ''ann@example.org'',
        u_name = JStr ''Ann'', u_picture = JUndefined, u_provider = ''google'',
        u_token = JStr ''h.p.s'', u_tokenExpiry = Some 3000\<rparr>],
      Some \<lparr>u_id = JStr ''1093'', u_email = JStr ''ann@example.org'',
        u_name = JStr ''Ann'', u_picture = JUndefined, u_provider = ''google'',
        u_token = JStr ''h.p.s'', u_tokenExpiry = Some 3000\<rparr>)"
  using save_then_load
    [of "\<lparr>u_id = JStr ''1093'', u_email = JStr ''ann@example.org'',
        u_name = JStr ''Ann'', u_picture = JUndefined, u_provider = ''google'',
        u_token = JStr ''h.p.s'', u_tokenExpiry = Some 3000\<rparr>" 2000 Map.empty]
  by (simp add: saveUserToStorage_def JSON_stringify_def)

section \<open>Properties of the redirect-back handler\<close>

text \<open>
  What the handler leaves of the query string: nothing when the redirect carries an
  \<open>error\<close>, nothing when it carries a \<open>code\<close> whose exchange succeeds, and the query string
  as it was when the exchange fails (or when neither parameter is there).
\<close>

lemma callback_flow_search:
  "search (handleGitHubCallbackFlow unsafe_toString post_callback pg) =
     (if present (params_get (search pg) ''error'') then []
      else if present (params_get (search pg) ''code'') then
        (case snd (handleGitHubCallback unsafe_toString post_callback
                     (the (params_get (search pg) ''code''))
                     (localStorage pg)) of
           Some u \<Rightarrow> [] | None \<Rightarrow> search pg)
      else search pg)"
  by (auto simp: handleGitHubCallbackFlow_def Let_def replaceState_def addLog_def
       split: prod.splits option.splits)

text \<open>
  Claim C2 says that the handler strips \<open>code\<close> and \<open>error\<close> from the location whether
  the exchange succeeds or fails. The code at a redirect-back with \<open>code=abc123\<close> whose
  exchange the provider rejects (the endpoint answers 401): the query string still holds
  the code afterwards, so a reload submits it again.
\<close>

theorem failed_exchange_keeps_code:
  "search (handleGitHubCallbackFlow (\<lambda>n. ''1e+21'')
     (\<lambda>c. served ''Unauthorized''
        (github_callback (\<lambda>n. ''1e+21'') (Some ''client'') (Some ''secret'')
           (\<lambda>i s c. Inr \<lparr>td_error = JStr ''bad_verification_code'',
                          td_error_description = JStr ''The code passed is incorrect or expired.'',
                          td_access_token = JUndefined\<rparr>)
           (\<lambda>t. Inl (ResponseError 401 JUndefined)) (JStr c)))
     \<lparr>pathname = ''/auth/github/callback'', search = [(''code'', ''abc123'')], logs = [],
      localStorage = Map.empty\<rparr>) = [(''code'', ''abc123'')]"
  by (simp add: handleGitHubCallbackFlow_def params_get_def present_def handleGitHubCallback_def
      handleGitHubCallback_body_def served_def github_callback_def response_ok_def addLog_def
      error_body_def empty_body_def js_or_def Let_def)

theorem failed_exchange_keeps_code_witness:
  "params_get
     (search (handleGitHubCallbackFlow (\<lambda>n. ''1e+21'')
        (\<lambda>c. served ''Unauthorized''
           (github_callback (\<lambda>n. ''1e+21'') (Some ''client'') (Some ''secret'')
              (\<lambda>i s c. Inr \<lparr>td_error = JStr ''bad_verification_code'',
                             td_error_description = JStr ''The code passed is incorrect or expired.'',
                             td_access_token = JUndefined\<rparr>)
              (\<lambda>t. Inl (ResponseError 401 JUndefined)) (JStr c)))
        \<lparr>pathname = ''/auth/github/callback'', search = [(''code'', ''abc123'')], logs = [],
         localStorage = Map.empty\<rparr>))
     ''code'' = Some ''abc123''"
  using failed_exchange_keeps_code by (simp add: params_get_def)

end
